theory Spec2Isabelle
  imports Main "HOL-Library.Word"
begin

section \<open>Data passed between the stages of the pipeline\<close>

text \<open>
  The program (\<^verbatim>\<open>demos/streamspeech2text/main.go\<close>) is four loops, each a short sequence
  of calls to a vendor client. The vendor services, standard input and the file system are
  not part of the program: every value they hand back is an input of the model (a script
  of results, consumed in the order the code asks for them), and every call the code makes
  is recorded as an event of a trace.
\<close>

type_synonym byte = "8 word"

text \<open>
  A Go \<^verbatim>\<open>error\<close> value that is not \<^verbatim>\<open>nil\<close>. The code compares errors with the sentinel
  \<^verbatim>\<open>io.EOF\<close> only, so every other error is one constructor carrying its message; the
  \<^verbatim>\<open>nil\<close> error is \<open>None\<close> of \<open>err option\<close>.
\<close>

datatype err = EOF | OtherError string

text \<open>\<^verbatim>\<open>speechpb.SpeechRecognitionAlternative\<close>: only \<^verbatim>\<open>Transcript\<close> is read by the program.\<close>

record alternative =
  Transcript :: string

text \<open>\<^verbatim>\<open>speechpb.StreamingRecognitionResult\<close>, read through \<^verbatim>\<open>GetAlternatives()\<close>.\<close>

record recognition_result =
  Alternatives :: "alternative list"

text \<open>\<^verbatim>\<open>status.Status\<close>, the error embedded in a response; \<^verbatim>\<open>Code\<close> is an int32.\<close>

record status =
  Code :: "32 word"
  Message :: string

text \<open>\<^verbatim>\<open>speechpb.StreamingRecognizeResponse\<close>; a \<^verbatim>\<open>nil\<close> \<^verbatim>\<open>Error\<close> is \<open>None\<close>.\<close>

record response =
  Error :: "status option"
  Results :: "recognition_result list"

text \<open>\<^verbatim>\<open>translate.Translation\<close>: only \<^verbatim>\<open>Text\<close> is read.\<close>

record translation =
  Text :: string

datatype ssml_gender = SSML_VOICE_GENDER_UNSPECIFIED | MALE | FEMALE | NEUTRAL

datatype audio_encoding = AUDIO_ENCODING_UNSPECIFIED | LINEAR16 | MP3 | OGG_OPUS

text \<open>\<^verbatim>\<open>texttospeechpb.SynthesizeSpeechRequest\<close>, flattened to the fields the code sets.\<close>

record synthesize_speech_request =
  Input_Text :: string
  Voice_LanguageCode :: string
  Voice_SsmlGender :: ssml_gender
  AudioConfig_AudioEncoding :: audio_encoding

section \<open>Traces and outcomes\<close>

text \<open>An operand of a formatting call (\<^verbatim>\<open>%v\<close> of an error, of a status, of a string).\<close>

datatype arg = ErrArg err | StatusArg status | StrArg string

text \<open>
  One event per call with an effect outside the goroutine, in program order. The log
  calls keep their format string and operands (the \<^verbatim>\<open>log\<close> package's time stamp is not
  modelled). \<open>AltsSend\<close> and \<open>TextsSend\<close> are the channel sends \<^verbatim>\<open>alts <- alt\<close> and
  \<^verbatim>\<open>texts <- ...\<close>; a stage is modelled on its own, so a channel send is taken to complete
  (the consumer is a loop that comes back to its receive unless the process has died).
\<close>

datatype event =
    Send "byte list"
  | CloseSend
  | LogPrint string
  | LogPrintf string "arg list"
  | LogFatalf string "arg list"
  | LogFatal "arg list"
  | Println "arg list"
  | Printf string "arg list"
  | AltsSend alternative
  | TextsSend string
  | Translate "string list" string
  | SynthesizeSpeech synthesize_speech_request
  | WriteFile string "byte list" nat

text \<open>
  How a stage's run over a finite script ends: the function returned; the process was
  terminated with an exit status (\<^verbatim>\<open>log.Fatal\<close>, \<^verbatim>\<open>log.Fatalf\<close> call \<^verbatim>\<open>os.Exit(1)\<close>); the
  goroutine panicked; or the script is used up and the loop is still running, blocked in
  its next read or receive.
\<close>

datatype outcome = Returned | Exited nat | Panicked | Blocked

section \<open>The audio ingester: startListeningStdin\<close>

text \<open>
  One iteration's inputs: what \<^verbatim>\<open>os.Stdin.Read(buf)\<close> stored at the front of \<^verbatim>\<open>buf\<close>
  (\<^verbatim>\<open>n\<close> is its length, at most the length of \<^verbatim>\<open>buf\<close> by the contract of \<^verbatim>\<open>Read\<close>) and the
  error it returned, and the error \<^verbatim>\<open>stream.Send\<close> returned. Every iteration does exactly
  one read followed by exactly one send.
\<close>

record stdin_step =
  rd_data :: "byte list"
  rd_err :: "err option"
  send_err :: "err option"

text \<open>\<^verbatim>\<open>buf := make([]byte, 1024)\<close>\<close>

definition make_buf :: "byte list" where
  "make_buf = replicate 1024 0"

text \<open>\<^verbatim>\<open>Read\<close> overwrites the first \<^verbatim>\<open>n\<close> bytes of the shared buffer.\<close>

definition read_into :: "byte list \<Rightarrow> byte list \<Rightarrow> byte list" where
  "read_into buf d = d @ drop (length d) buf"

text \<open>Lines 74-80: the send of \<^verbatim>\<open>buf[:n]\<close>, its error logged and dropped.\<close>

definition send_audio :: "byte list \<Rightarrow> err option \<Rightarrow> event list" where
  "send_audio content r =
     Send content #
       (case r of None \<Rightarrow> [] | Some e \<Rightarrow> [LogPrintf ''Could not send audio: %v'' [ErrArg e]])"

text \<open>Lines 88-91: a read error other than end-of-input is logged and the loop goes on.\<close>

definition log_read_err :: "err option \<Rightarrow> event list" where
  "log_read_err r =
     (case r of None \<Rightarrow> [] | Some e \<Rightarrow> [LogPrintf ''Could not read from stdin: %v'' [ErrArg e]])"

text \<open>Lines 81-87: \<^verbatim>\<open>CloseSend\<close>, fatal when it fails, then \<^verbatim>\<open>return\<close>.\<close>

definition close_stream :: "err option \<Rightarrow> event list \<times> outcome" where
  "close_stream r =
     (case r of
        Some e \<Rightarrow> ([CloseSend, LogFatalf ''Could not close stream: %v'' [ErrArg e]], Exited 1)
      | None \<Rightarrow> ([CloseSend], Returned))"

text \<open>
  The loop of lines 72-92. \<open>close_err\<close> is what \<^verbatim>\<open>stream.CloseSend()\<close> returns when it is
  called. The send comes first in the body, before either test of the read's error, and
  is not guarded by \<^verbatim>\<open>n\<close>.
\<close>

fun listen_loop :: "err option \<Rightarrow> byte list \<Rightarrow> stdin_step list \<Rightarrow> event list \<times> outcome" where
  "listen_loop close_err buf [] = ([], Blocked)"
| "listen_loop close_err buf (s # rest) =
     (let n = length (rd_data s);
          buf' = read_into buf (rd_data s);
          sent = send_audio (take n buf') (send_err s)
      in if rd_err s = Some EOF then apfst ((@) sent) (close_stream close_err)
         else apfst ((@) (sent @ log_read_err (rd_err s))) (listen_loop close_err buf' rest))"

definition startListeningStdin :: "err option \<Rightarrow> stdin_step list \<Rightarrow> event list \<times> outcome" where
  "startListeningStdin close_err script = listen_loop close_err make_buf script"

text \<open>The messages put on the recognition stream, in order.\<close>

fun is_stream_op :: "event \<Rightarrow> bool" where
  "is_stream_op (Send _) = True"
| "is_stream_op CloseSend = True"
| "is_stream_op _ = False"

definition stream_ops :: "event list \<Rightarrow> event list" where
  "stream_ops evs = filter is_stream_op evs"

text \<open>The events of an iteration whose read did not report end-of-input.\<close>

definition iteration_events :: "stdin_step \<Rightarrow> event list" where
  "iteration_events s = send_audio (rd_data s) (send_err s) @ log_read_err (rd_err s)"

section \<open>The transcript receiver: startReceivingStream\<close>

text \<open>Lines 114-117: the inner loop over one result's alternatives.\<close>

fun range_alternatives :: "alternative list \<Rightarrow> event list" where
  "range_alternatives [] = []"
| "range_alternatives (alt # alternatives) =
     Println [StrArg ''Transcript alternatives: '', StrArg (Transcript alt)] #
     AltsSend alt #
     range_alternatives alternatives"

text \<open>Lines 112-118: the outer loop over the results of one response.\<close>

fun range_results :: "recognition_result list \<Rightarrow> event list" where
  "range_results [] = []"
| "range_results (result # results) =
     range_alternatives (Alternatives result) @ range_results results"

text \<open>Lines 105-111: an error embedded in the response is fatal, with a warning first for
  the codes 3 and 11.\<close>

definition could_not_recognize :: "status \<Rightarrow> event list" where
  "could_not_recognize st =
     (if Code st = 3 \<or> Code st = 11
      then [LogPrint ''WARNING: Speech recognition request exceeded limit of 60 seconds.'']
      else []) @
     [LogFatalf ''Could not recognize: %v'' [StatusArg st]]"

text \<open>
  The loop of lines 97-119 over what \<^verbatim>\<open>stream.Recv()\<close> returns, call after call: \<open>Inl e\<close>
  is a non-nil error (the response is then not looked at), \<open>Inr resp\<close> a response with a nil
  error.
\<close>

fun startReceivingStream :: "(err + response) list \<Rightarrow> event list \<times> outcome" where
  "startReceivingStream [] = ([], Blocked)"
| "startReceivingStream (Inl e # rest) =
     (if e = EOF then ([], Returned)
      else ([LogFatalf ''Cannot stream results: %v'' [ErrArg e]], Exited 1))"
| "startReceivingStream (Inr resp # rest) =
     (case Error resp of
        Some st \<Rightarrow> (could_not_recognize st, Exited 1)
      | None \<Rightarrow> apfst ((@) (range_results (Results resp))) (startReceivingStream rest))"

text \<open>The alternatives put on the \<^verbatim>\<open>alts\<close> channel and the lines printed, in order.\<close>

fun alt_of :: "event \<Rightarrow> alternative list" where
  "alt_of (AltsSend a) = [a]"
| "alt_of _ = []"

definition alts_sent :: "event list \<Rightarrow> alternative list" where
  "alts_sent evs = concat (map alt_of evs)"

fun println_of :: "event \<Rightarrow> arg list list" where
  "println_of (Println as) = [as]"
| "println_of _ = []"

definition printlns :: "event list \<Rightarrow> arg list list" where
  "printlns evs = concat (map println_of evs)"

text \<open>A receive that lets the loop go on: a response, with no error embedded.\<close>

fun ok_recv :: "err + response \<Rightarrow> bool" where
  "ok_recv (Inl e) = False"
| "ok_recv (Inr resp) = (Error resp = None)"

text \<open>The events of an iteration whose receive lets the loop go on.\<close>

fun recv_events :: "err + response \<Rightarrow> event list" where
  "recv_events (Inl e) = []"
| "recv_events (Inr resp) = range_results (Results resp)"

section \<open>The translator: startTranslating\<close>

text \<open>
  One iteration's inputs: the alternative received from \<^verbatim>\<open>alts\<close>, the error of
  \<^verbatim>\<open>translate.NewClient\<close>, and what \<^verbatim>\<open>client.Translate\<close> returns (an error, or the slice
  of translations). \<^verbatim>\<open>language.Parse\<close> is a function of the code alone and is a parameter
  of the loop; a language tag is modelled by its string.
\<close>

record translate_step =
  alt_in :: alternative
  new_client_err :: "err option"
  translate_res :: "err + translation list"

text \<open>Go's \<^verbatim>\<open>xs[i]\<close>: \<open>None\<close> is the run-time panic "index out of range".\<close>

definition index :: "'a list \<Rightarrow> nat \<Rightarrow> 'a option" where
  "index xs i = (if i < length xs then Some (xs ! i) else None)"

text \<open>The loop of lines 144-166.\<close>

fun startTranslating ::
  "(string \<Rightarrow> err + string) \<Rightarrow> string \<Rightarrow> translate_step list \<Rightarrow> event list \<times> outcome" where
  "startTranslating parse code [] = ([], Blocked)"
| "startTranslating parse code (s # rest) =
     (let text = Transcript (alt_in s) in
      case new_client_err s of
        Some e \<Rightarrow> ([LogFatalf ''Failed to create client: %v'' [ErrArg e]], Exited 1)
      | None \<Rightarrow>
          (case parse code of
             Inl e \<Rightarrow> ([LogFatalf ''Failed to parse target language: %v'' [ErrArg e]], Exited 1)
           | Inr target \<Rightarrow>
               (case translate_res s of
                  Inl e \<Rightarrow>
                    ([Translate [text] target,
                      LogFatalf ''Failed to translate text: %v'' [ErrArg e]], Exited 1)
                | Inr translations \<Rightarrow>
                    (case index translations 0 of
                       None \<Rightarrow> ([Translate [text] target], Panicked)
                     | Some t \<Rightarrow>
                         apfst ((@) [Translate [text] target,
                                     Printf ''Translation: %v\<newline>'' [StrArg (Text t)],
                                     TextsSend (Text t)])
                           (startTranslating parse code rest)))))"

text \<open>The strings put on the \<^verbatim>\<open>texts\<close> channel, in order.\<close>

fun text_of :: "event \<Rightarrow> string list" where
  "text_of (TextsSend t) = [t]"
| "text_of _ = []"

definition texts_sent :: "event list \<Rightarrow> string list" where
  "texts_sent evs = concat (map text_of evs)"

text \<open>An iteration in which the three calls succeed and the response holds a translation.\<close>

definition translated :: "(string \<Rightarrow> err + string) \<Rightarrow> string \<Rightarrow> translate_step \<Rightarrow> bool" where
  "translated parse code s =
     (new_client_err s = None \<and> \<not> isl (parse code) \<and>
      (case translate_res s of Inl e \<Rightarrow> False | Inr ts \<Rightarrow> ts \<noteq> []))"

text \<open>The first translation of a response, when the call succeeded and there is one.\<close>

fun first_translation :: "err + translation list \<Rightarrow> translation option" where
  "first_translation (Inl e) = None"
| "first_translation (Inr translations) = index translations 0"

text \<open>The events of an iteration that translated.\<close>

definition translated_events :: "string \<Rightarrow> translate_step \<Rightarrow> event list" where
  "translated_events target s =
     (case first_translation (translate_res s) of
        None \<Rightarrow> []
      | Some t \<Rightarrow>
          [Translate [Transcript (alt_in s)] target,
           Printf ''Translation: %v\<newline>'' [StrArg (Text t)],
           TextsSend (Text t)])"

section \<open>The speaker: startSpeaking\<close>

text \<open>
  What \<^verbatim>\<open>ioutil.WriteFile\<close> did: it wrote the file, or it failed with an error and left
  the file absent or with some content (the call truncates before it writes).
\<close>

datatype write_result = WriteOk | WriteFailed err "byte list option"

text \<open>
  One iteration's inputs: the text received from \<^verbatim>\<open>texts\<close>, what
  \<^verbatim>\<open>client.SynthesizeSpeech\<close> returns (an error, or the response's \<^verbatim>\<open>AudioContent\<close>), and
  the result of the write.
\<close>

record speak_step =
  text_in :: string
  synth_res :: "err + byte list"
  write_res :: write_result

type_synonym files = "string \<rightharpoonup> byte list"

definition filename :: string where
  "filename = ''output.mp3''"

text \<open>Lines 182-197.\<close>

definition synth_request :: "string \<Rightarrow> string \<Rightarrow> synthesize_speech_request" where
  "synth_request lang text =
     \<lparr>Input_Text = text, Voice_LanguageCode = lang, Voice_SsmlGender = NEUTRAL,
      AudioConfig_AudioEncoding = MP3\<rparr>"

text \<open>The loop of lines 177-211; the permission 0644 is 420.\<close>

fun speaking_loop :: "string \<Rightarrow> files \<Rightarrow> speak_step list \<Rightarrow> event list \<times> files \<times> outcome" where
  "speaking_loop lang fs [] = ([], fs, Blocked)"
| "speaking_loop lang fs (s # rest) =
     (let req = synth_request lang (text_in s) in
      case synth_res s of
        Inl e \<Rightarrow> ([SynthesizeSpeech req, LogFatal [ErrArg e]], fs, Exited 1)
      | Inr audio \<Rightarrow>
          (case write_res s of
             WriteFailed e left \<Rightarrow>
               ([SynthesizeSpeech req, WriteFile filename audio 420, LogFatal [ErrArg e]],
                fs(filename := left), Exited 1)
           | WriteOk \<Rightarrow>
               apfst ((@) [SynthesizeSpeech req, WriteFile filename audio 420,
                           Printf ''Audio content written to file: %v\<newline>'' [StrArg filename]])
                 (speaking_loop lang (fs(filename \<mapsto> audio)) rest)))"

text \<open>Lines 171-176, then the loop. \<open>client_err\<close> is the error of \<^verbatim>\<open>texttospeech.NewClient\<close>.\<close>

definition startSpeaking ::
  "err option \<Rightarrow> string \<Rightarrow> files \<Rightarrow> speak_step list \<Rightarrow> event list \<times> files \<times> outcome" where
  "startSpeaking client_err lang fs script =
     (case client_err of
        Some e \<Rightarrow> ([LogFatal [ErrArg e]], fs, Exited 1)
      | None \<Rightarrow> speaking_loop lang fs script)"

text \<open>The synthesis requests issued and the files written, in order.\<close>

fun synth_of :: "event \<Rightarrow> synthesize_speech_request list" where
  "synth_of (SynthesizeSpeech r) = [r]"
| "synth_of _ = []"

definition synth_requests :: "event list \<Rightarrow> synthesize_speech_request list" where
  "synth_requests evs = concat (map synth_of evs)"

fun write_of :: "event \<Rightarrow> (string \<times> byte list) list" where
  "write_of (WriteFile f c p) = [(f, c)]"
| "write_of _ = []"

definition writes :: "event list \<Rightarrow> (string \<times> byte list) list" where
  "writes evs = concat (map write_of evs)"

text \<open>An iteration in which the synthesis and the write both succeed.\<close>

definition spoken :: "speak_step \<Rightarrow> bool" where
  "spoken s = (\<not> isl (synth_res s) \<and> write_res s = WriteOk)"

text \<open>The audio returned by a successful synthesis.\<close>

definition audio_of :: "speak_step \<Rightarrow> byte list" where
  "audio_of s = (case synth_res s of Inl e \<Rightarrow> [] | Inr audio \<Rightarrow> audio)"

text \<open>The events of an iteration that spoke.\<close>

definition spoken_events :: "string \<Rightarrow> speak_step \<Rightarrow> event list" where
  "spoken_events lang s =
     [SynthesizeSpeech (synth_request lang (text_in s)),
      WriteFile filename (audio_of s) 420,
      Printf ''Audio content written to file: %v\<newline>'' [StrArg filename]]"

text \<open>How many texts a run takes from the channel: every one up to and including the
  first whose synthesis or write fails.\<close>

fun consumed :: "speak_step list \<Rightarrow> nat" where
  "consumed [] = 0"
| "consumed (s # rest) = (if spoken s then Suc (consumed rest) else 1)"

text \<open>The files after the iterations \<open>pre\<close>, all of which spoke.\<close>

definition last_write :: "files \<Rightarrow> speak_step list \<Rightarrow> files" where
  "last_write fs pre = (if pre = [] then fs else fs(filename \<mapsto> audio_of (last pre)))"

section \<open>Prepending events to a run\<close>

lemma apfst_append_append:
  "apfst ((@) xs) (apfst ((@) ys) p) = apfst ((@) (xs @ ys)) p"
  by (cases p) simp

lemma apfst_ident: "apfst (\<lambda>a. a) p = p"
  by (cases p) simp

section \<open>Properties of the audio ingester\<close>

lemma take_read_into: "take (length d) (read_into buf d) = d"
  by (simp add: read_into_def)

lemma stream_ops_append: "stream_ops (xs @ ys) = stream_ops xs @ stream_ops ys"
  by (simp add: stream_ops_def)

lemma stream_ops_send_audio: "stream_ops (send_audio c r) = [Send c]"
  by (simp add: stream_ops_def send_audio_def split: option.split)

lemma stream_ops_log_read_err: "stream_ops (log_read_err r) = []"
  by (simp add: stream_ops_def log_read_err_def split: option.split)

lemma stream_ops_iteration: "stream_ops (iteration_events s) = [Send (rd_data s)]"
  by (simp add: iteration_events_def stream_ops_append stream_ops_send_audio
      stream_ops_log_read_err)

lemma stream_ops_concat_iterations:
  "stream_ops (concat (map iteration_events pre)) = map (\<lambda>x. Send (rd_data x)) pre"
proof (induction pre)
  case Nil
  show ?case by (simp add: stream_ops_def)
next
  case (Cons x pre)
  then show ?case by (simp add: stream_ops_append stream_ops_iteration)
qed

lemma stream_ops_close: "stream_ops (fst (close_stream c)) = [CloseSend]"
  by (simp add: close_stream_def stream_ops_def split: option.split)

lemma count_CloseSend_iterations:
  "count_list (concat (map iteration_events pre)) CloseSend = 0"
  by (induction pre)
    (simp_all add: iteration_events_def send_audio_def log_read_err_def split: option.split)

text \<open>Iterations that do not read end-of-input only add their events and go on.\<close>

lemma listen_loop_prefix:
  "\<forall>x\<in>set pre. rd_err x \<noteq> Some EOF \<Longrightarrow>
   listen_loop c buf (pre @ rest) =
     apfst ((@) (concat (map iteration_events pre)))
       (listen_loop c (foldl read_into buf (map rd_data pre)) rest)"
proof (induction pre arbitrary: buf)
  case Nil
  show ?case by (simp add: apfst_def map_prod_def split: prod.split)
next
  case (Cons x pre)
  then show ?case
    by (simp add: Let_def take_read_into iteration_events_def apfst_def map_prod_def
        split: prod.split)
qed

text \<open>The iteration that reads end-of-input sends what it read, closes and stops.\<close>

lemma listen_loop_eof:
  "rd_err s = Some EOF \<Longrightarrow>
   listen_loop c buf (s # rest) =
     apfst ((@) (send_audio (rd_data s) (send_err s))) (close_stream c)"
  by (simp add: Let_def take_read_into)

lemma startListeningStdin_run:
  assumes "\<forall>x\<in>set pre. rd_err x \<noteq> Some EOF" and "rd_err s = Some EOF"
  shows "startListeningStdin c (pre @ s # rest) =
      apfst ((@) (concat (map iteration_events pre)))
        (apfst ((@) (send_audio (rd_data s) (send_err s))) (close_stream c))"
  unfolding startListeningStdin_def
  using listen_loop_prefix [OF assms(1), of c make_buf "s # rest"]
    listen_loop_eof [OF assms(2), of c "foldl read_into make_buf (map rd_data pre)" rest]
  by simp

text \<open>
  C1. Let the reads be \<open>pre\<close>, none of which reports end-of-input, then a read \<open>s\<close> that
  does (whatever the script holds after it is never read). Whatever the sends and
  \<^verbatim>\<open>CloseSend\<close> return, the messages put on the recognition stream are one audio message
  per read, in order, followed by one \<^verbatim>\<open>CloseSend\<close>, which is the last of them; \<^verbatim>\<open>CloseSend\<close>
  occurs exactly once in the whole trace; and the loop is left: the function returns
  when \<^verbatim>\<open>CloseSend\<close> succeeded, and the process exits when it failed.
\<close>

theorem ingester_closes_once_after_all_chunks:
  assumes "\<forall>x\<in>set pre. rd_err x \<noteq> Some EOF" and "rd_err s = Some EOF"
  shows "stream_ops (fst (startListeningStdin c (pre @ s # rest))) =
           map (\<lambda>x. Send (rd_data x)) (pre @ [s]) @ [CloseSend]
       \<and> count_list (fst (startListeningStdin c (pre @ s # rest))) CloseSend = 1
       \<and> snd (startListeningStdin c (pre @ s # rest)) =
           (case c of None \<Rightarrow> Returned | Some e \<Rightarrow> Exited 1)"
proof -
  note run = startListeningStdin_run [OF assms, of c rest]
  have a: "stream_ops (fst (startListeningStdin c (pre @ s # rest))) =
           map (\<lambda>x. Send (rd_data x)) (pre @ [s]) @ [CloseSend]"
    by (simp add: run stream_ops_append stream_ops_concat_iterations stream_ops_send_audio
        stream_ops_close)
  have b: "count_list (fst (startListeningStdin c (pre @ s # rest))) CloseSend = 1"
    by (simp add: run count_CloseSend_iterations send_audio_def close_stream_def
        split: option.split)
  have d: "snd (startListeningStdin c (pre @ s # rest)) =
           (case c of None \<Rightarrow> Returned | Some e \<Rightarrow> Exited 1)"
    by (simp add: run close_stream_def split: option.split)
  from a b d show ?thesis by blast
qed

theorem ingester_closes_once_after_all_chunks_witness:
  "stream_ops (fst (startListeningStdin None
        [\<lparr>rd_data = [1, 2], rd_err = None, send_err = None\<rparr>,
         \<lparr>rd_data = [3], rd_err = Some (OtherError ''EIO''), send_err = Some (OtherError ''down'')\<rparr>,
         \<lparr>rd_data = [], rd_err = Some EOF, send_err = None\<rparr>])) =
       [Send [1, 2], Send [3], Send [], CloseSend]
   \<and> snd (startListeningStdin None
        [\<lparr>rd_data = [1, 2], rd_err = None, send_err = None\<rparr>,
         \<lparr>rd_data = [3], rd_err = Some (OtherError ''EIO''), send_err = Some (OtherError ''down'')\<rparr>,
         \<lparr>rd_data = [], rd_err = Some EOF, send_err = None\<rparr>]) = Returned"
  using ingester_closes_once_after_all_chunks
    [of "[\<lparr>rd_data = [1, 2], rd_err = None, send_err = None\<rparr>,
          \<lparr>rd_data = [3], rd_err = Some (OtherError ''EIO''), send_err = Some (OtherError ''down'')\<rparr>]"
        "\<lparr>rd_data = [], rd_err = Some EOF, send_err = None\<rparr>" None "[]"]
  by simp

lemma startListeningStdin_no_eof:
  assumes "\<forall>x\<in>set script. rd_err x \<noteq> Some EOF"
  shows "startListeningStdin c script = (concat (map iteration_events script), Blocked)"
  using listen_loop_prefix [OF assms, of c make_buf "[]"]
  by (simp add: startListeningStdin_def)

lemma startListeningStdin_outcome:
  "snd (startListeningStdin c script) =
     (if \<exists>x\<in>set script. rd_err x = Some EOF
      then (case c of None \<Rightarrow> Returned | Some e \<Rightarrow> Exited 1)
      else Blocked)"
proof (cases "\<exists>x\<in>set script. rd_err x = Some EOF")
  case True
  then obtain pre s rest where
    "script = pre @ s # rest" "rd_err s = Some EOF" "\<forall>y\<in>set pre. rd_err y \<noteq> Some EOF"
    using split_list_first_prop [of script "\<lambda>x. rd_err x = Some EOF"] by blast
  with True show ?thesis
    using startListeningStdin_run [of pre s c rest]
    by (simp add: close_stream_def split: option.split)
next
  case False
  then show ?thesis using startListeningStdin_no_eof [of script c] by simp
qed

text \<open>
  C5, as stated, fails: the ingester does terminate the whole process, when \<^verbatim>\<open>CloseSend\<close>
  fails after end-of-input (\<^verbatim>\<open>log.Fatalf\<close>, line 84). Here the first read reports
  end-of-input and \<^verbatim>\<open>CloseSend\<close> returns an error.
\<close>

theorem ingester_exits_when_close_fails:
  "snd (startListeningStdin (Some (OtherError ''closed''))
     [\<lparr>rd_data = [], rd_err = Some EOF, send_err = None\<rparr>]) = Exited 1"
  by (simp add: startListeningStdin_def Let_def read_into_def send_audio_def close_stream_def)

text \<open>
  C5, amended. The ingester terminates the process only when \<^verbatim>\<open>CloseSend\<close> fails after
  end-of-input. As long as no read reports end-of-input the loop goes on, whatever the
  reads and the sends return: the run is the events of its iterations, one after the
  other, and is still in the loop when the script is used up. The loop is left exactly
  when a read reports end-of-input: by returning when \<^verbatim>\<open>CloseSend\<close> succeeds, by exiting
  the process when it fails. An iteration's events hold the log line of its send error
  and, when it does not leave the loop, the log line of its read error.
\<close>

theorem ingester_logs_and_continues:
  "((\<forall>x\<in>set script. rd_err x \<noteq> Some EOF) \<longrightarrow>
      startListeningStdin c script = (concat (map iteration_events script), Blocked))
   \<and> snd (startListeningStdin c script) =
       (if \<exists>x\<in>set script. rd_err x = Some EOF
        then (case c of None \<Rightarrow> Returned | Some e \<Rightarrow> Exited 1)
        else Blocked)
   \<and> (\<forall>e. send_err s = Some e \<longrightarrow>
         LogPrintf ''Could not send audio: %v'' [ErrArg e] \<in> set (iteration_events s))
   \<and> (\<forall>e. rd_err s = Some e \<and> e \<noteq> EOF \<longrightarrow>
         LogPrintf ''Could not read from stdin: %v'' [ErrArg e] \<in> set (iteration_events s))"
  using startListeningStdin_no_eof [of script c] startListeningStdin_outcome [of c script]
  by (simp add: iteration_events_def send_audio_def log_read_err_def)

theorem ingester_logs_and_continues_witness:
  "startListeningStdin None
     [\<lparr>rd_data = [7], rd_err = Some (OtherError ''EIO''), send_err = Some (OtherError ''down'')\<rparr>,
      \<lparr>rd_data = [8, 9], rd_err = None, send_err = None\<rparr>] =
     ([Send [7],
       LogPrintf ''Could not send audio: %v'' [ErrArg (OtherError ''down'')],
       LogPrintf ''Could not read from stdin: %v'' [ErrArg (OtherError ''EIO'')],
       Send [8, 9]], Blocked)"
  using ingester_logs_and_continues
    [where script = "[\<lparr>rd_data = [7], rd_err = Some (OtherError ''EIO''),
                       send_err = Some (OtherError ''down'')\<rparr>,
                      \<lparr>rd_data = [8, 9], rd_err = None, send_err = None\<rparr>]"
       and c = None]
  by (simp add: iteration_events_def send_audio_def log_read_err_def)

section \<open>Properties of the transcript receiver\<close>

lemma alts_sent_append: "alts_sent (xs @ ys) = alts_sent xs @ alts_sent ys"
  by (simp add: alts_sent_def)

lemma printlns_append: "printlns (xs @ ys) = printlns xs @ printlns ys"
  by (simp add: printlns_def)

lemma alts_sent_range_alternatives: "alts_sent (range_alternatives as) = as"
  by (induction as) (simp_all add: alts_sent_def)

lemma printlns_range_alternatives:
  "printlns (range_alternatives as) =
     map (\<lambda>a. [StrArg ''Transcript alternatives: '', StrArg (Transcript a)]) as"
  by (induction as) (simp_all add: printlns_def)

lemma range_results_append: "range_results (xs @ ys) = range_results xs @ range_results ys"
  by (induction xs) simp_all

lemma alts_sent_range_results: "alts_sent (range_results rs) = concat (map Alternatives rs)"
proof (induction rs)
  case Nil
  show ?case by (simp add: alts_sent_def)
next
  case (Cons r rs)
  then show ?case by (simp add: alts_sent_append alts_sent_range_alternatives)
qed

lemma printlns_range_results:
  "printlns (range_results rs) =
     map (\<lambda>a. [StrArg ''Transcript alternatives: '', StrArg (Transcript a)])
       (concat (map Alternatives rs))"
proof (induction rs)
  case Nil
  show ?case by (simp add: printlns_def)
next
  case (Cons r rs)
  then show ?case by (simp add: printlns_append printlns_range_alternatives)
qed

lemma alts_sent_could_not_recognize: "alts_sent (could_not_recognize st) = []"
  by (simp add: could_not_recognize_def alts_sent_def)

text \<open>Receives that let the loop go on only add their events.\<close>

lemma startReceivingStream_prefix:
  "\<forall>x\<in>set pre. ok_recv x \<Longrightarrow>
   startReceivingStream (pre @ rest) =
     apfst ((@) (concat (map recv_events pre))) (startReceivingStream rest)"
proof (induction pre)
  case Nil
  show ?case by (simp add: apfst_ident)
next
  case (Cons x pre)
  then show ?case
    by (cases x) (simp_all add: apfst_append_append)
qed

text \<open>How the run ends is decided by the first receive that does not let the loop go on.\<close>

lemma startReceivingStream_outcome:
  "snd (startReceivingStream script) =
     (case find (\<lambda>x. \<not> ok_recv x) script of
        None \<Rightarrow> Blocked
      | Some x \<Rightarrow> if x = Inl EOF then Returned else Exited 1)"
proof (induction script rule: startReceivingStream.induct)
  case 1
  show ?case by simp
next
  case (2 e rest)
  show ?case by simp
next
  case (3 resp rest)
  then show ?case by (cases "Error resp") simp_all
qed

text \<open>
  C3. Let the receiver have received the responses \<open>pre\<close>, each without an error, and
  receive next a response without an error whose results are \<open>before\<close>, then a result \<open>r\<close>,
  then \<open>after\<close>. The receiver's trace holds, at the place of \<open>r\<close>, the events of the inner
  loop over the alternatives of \<open>r\<close>; these events forward exactly the alternatives of
  \<open>r\<close> on the channel, in the order of the result, so as many items as \<open>r\<close> has
  alternatives, and print the transcript of each, in the same order.
\<close>

theorem receiver_forwards_each_alternative:
  assumes "\<forall>x\<in>set pre. ok_recv x"
    and "Error resp = None" and "Results resp = before @ r # after"
  shows "fst (startReceivingStream (pre @ Inr resp # rest)) =
           concat (map recv_events pre) @
           range_results before @ range_alternatives (Alternatives r) @ range_results after @
           fst (startReceivingStream rest)
       \<and> alts_sent (range_alternatives (Alternatives r)) = Alternatives r
       \<and> length (alts_sent (range_alternatives (Alternatives r))) = length (Alternatives r)
       \<and> printlns (range_alternatives (Alternatives r)) =
           map (\<lambda>a. [StrArg ''Transcript alternatives: '', StrArg (Transcript a)])
             (Alternatives r)"
  using assms startReceivingStream_prefix [OF assms(1), of "Inr resp # rest"]
  by (simp add: range_results_append alts_sent_range_alternatives printlns_range_alternatives)

theorem receiver_forwards_each_alternative_witness:
  "fst (startReceivingStream
     [Inr \<lparr>Error = None, Results = []\<rparr>,
      Inr \<lparr>Error = None,
           Results = [\<lparr>Alternatives = [\<lparr>Transcript = ''ola''\<rparr>, \<lparr>Transcript = ''hola''\<rparr>]\<rparr>]\<rparr>,
      Inl EOF]) =
     [Println [StrArg ''Transcript alternatives: '', StrArg ''ola''],
      AltsSend \<lparr>Transcript = ''ola''\<rparr>,
      Println [StrArg ''Transcript alternatives: '', StrArg ''hola''],
      AltsSend \<lparr>Transcript = ''hola''\<rparr>]
   \<and> alts_sent (range_alternatives [\<lparr>Transcript = ''ola''\<rparr>, \<lparr>Transcript = ''hola''\<rparr>]) =
       [\<lparr>Transcript = ''ola''\<rparr>, \<lparr>Transcript = ''hola''\<rparr>]"
  using receiver_forwards_each_alternative
    [where pre = "[Inr \<lparr>Error = None, Results = []\<rparr>]"
       and resp = "\<lparr>Error = None,
           Results = [\<lparr>Alternatives = [\<lparr>Transcript = ''ola''\<rparr>, \<lparr>Transcript = ''hola''\<rparr>]\<rparr>]\<rparr>"
       and before = "[]"
       and r = "\<lparr>Alternatives = [\<lparr>Transcript = ''ola''\<rparr>, \<lparr>Transcript = ''hola''\<rparr>]\<rparr>"
       and after = "[]" and rest = "[Inl EOF]"]
  by simp

text \<open>
  C4, as stated, fails: the receiver does not forward one item per result. A response
  with one result that holds two alternatives puts both on the channel, not only the
  top one.
\<close>

theorem receiver_forwards_more_than_top_alternative:
  "alts_sent (fst (startReceivingStream
      [Inr \<lparr>Error = None,
            Results = [\<lparr>Alternatives = [\<lparr>Transcript = ''ola''\<rparr>, \<lparr>Transcript = ''hola''\<rparr>]\<rparr>]\<rparr>,
       Inl EOF])) = [\<lparr>Transcript = ''ola''\<rparr>, \<lparr>Transcript = ''hola''\<rparr>]
   \<and> alts_sent (fst (startReceivingStream
      [Inr \<lparr>Error = None,
            Results = [\<lparr>Alternatives = [\<lparr>Transcript = ''ola''\<rparr>, \<lparr>Transcript = ''hola''\<rparr>]\<rparr>]\<rparr>,
       Inl EOF])) \<noteq> [\<lparr>Transcript = ''ola''\<rparr>]"
  by (simp add: alts_sent_def)

text \<open>
  C4, amended. For a response received without an error, the receiver forwards every
  alternative of every result, result after result and, within a result, in the result's
  order (the top alternative first), and prints the transcript of each; the number of
  items forwarded for the response is the sum of the numbers of alternatives of its
  results.
\<close>

theorem receiver_forwards_all_alternatives:
  assumes "Error resp = None"
  shows "alts_sent (fst (startReceivingStream (Inr resp # rest))) =
           concat (map Alternatives (Results resp)) @ alts_sent (fst (startReceivingStream rest))
       \<and> printlns (fst (startReceivingStream (Inr resp # rest))) =
           map (\<lambda>a. [StrArg ''Transcript alternatives: '', StrArg (Transcript a)])
             (concat (map Alternatives (Results resp))) @
           printlns (fst (startReceivingStream rest))
       \<and> length (alts_sent (range_results (Results resp))) =
           sum_list (map (\<lambda>r. length (Alternatives r)) (Results resp))"
  using assms
  by (simp add: alts_sent_append printlns_append alts_sent_range_results
      printlns_range_results length_concat comp_def)

theorem receiver_forwards_all_alternatives_witness:
  "alts_sent (fst (startReceivingStream
      [Inr \<lparr>Error = None,
            Results = [\<lparr>Alternatives = [\<lparr>Transcript = ''a''\<rparr>, \<lparr>Transcript = ''b''\<rparr>]\<rparr>,
                       \<lparr>Alternatives = []\<rparr>,
                       \<lparr>Alternatives = [\<lparr>Transcript = ''c''\<rparr>]\<rparr>]\<rparr>])) =
     [\<lparr>Transcript = ''a''\<rparr>, \<lparr>Transcript = ''b''\<rparr>, \<lparr>Transcript = ''c''\<rparr>]"
  using receiver_forwards_all_alternatives
    [where resp = "\<lparr>Error = None,
            Results = [\<lparr>Alternatives = [\<lparr>Transcript = ''a''\<rparr>, \<lparr>Transcript = ''b''\<rparr>]\<rparr>,
                       \<lparr>Alternatives = []\<rparr>,
                       \<lparr>Alternatives = [\<lparr>Transcript = ''c''\<rparr>]\<rparr>]\<rparr>"
       and rest = "[]"]
  by (simp add: alts_sent_def)

text \<open>
  C6. The receiver returns, without terminating the process, exactly when the first
  receive that is not an error-free response reports end-of-stream; it exits the process
  when that receive is any other error or a response with an error embedded; while no such
  receive has come it is still in its loop. Spelled out after the error-free responses
  \<open>pre\<close>: on end-of-stream the run is the events of \<open>pre\<close> and a return; on another
  receive error it ends with the fatal log line and the exit; on a response with an
  embedded status it ends with the fatal log line and the exit, nothing of the response
  being forwarded, and for the codes 3 and 11 (the 60-second limit) the warning comes
  just before the fatal line. What follows in the script is never received.
\<close>

theorem receiver_stops_on_eof_and_exits_on_error:
  "snd (startReceivingStream script) =
     (case find (\<lambda>x. \<not> ok_recv x) script of
        None \<Rightarrow> Blocked
      | Some x \<Rightarrow> if x = Inl EOF then Returned else Exited 1)
   \<and> ((\<forall>x\<in>set pre. ok_recv x) \<longrightarrow>
        startReceivingStream (pre @ Inl EOF # rest) = (concat (map recv_events pre), Returned)
      \<and> (\<forall>e. e \<noteq> EOF \<longrightarrow>
            startReceivingStream (pre @ Inl e # rest) =
              (concat (map recv_events pre) @
               [LogFatalf ''Cannot stream results: %v'' [ErrArg e]], Exited 1))
      \<and> (\<forall>resp st. Error resp = Some st \<longrightarrow>
            startReceivingStream (pre @ Inr resp # rest) =
              (concat (map recv_events pre) @ could_not_recognize st, Exited 1)))
   \<and> could_not_recognize st =
       (if Code st = 3 \<or> Code st = 11
        then [LogPrint ''WARNING: Speech recognition request exceeded limit of 60 seconds.'',
              LogFatalf ''Could not recognize: %v'' [StatusArg st]]
        else [LogFatalf ''Could not recognize: %v'' [StatusArg st]])"
  using startReceivingStream_outcome [of script] startReceivingStream_prefix [of pre]
  by (simp add: could_not_recognize_def)

theorem receiver_stops_on_eof_and_exits_on_error_witness:
  "startReceivingStream
     [Inr \<lparr>Error = None, Results = [\<lparr>Alternatives = [\<lparr>Transcript = ''ola''\<rparr>]\<rparr>]\<rparr>,
      Inr \<lparr>Error = Some \<lparr>Code = 11, Message = ''Exceeded maximum allowed stream duration''\<rparr>,
           Results = [\<lparr>Alternatives = [\<lparr>Transcript = ''late''\<rparr>]\<rparr>]\<rparr>,
      Inl EOF] =
     ([Println [StrArg ''Transcript alternatives: '', StrArg ''ola''],
       AltsSend \<lparr>Transcript = ''ola''\<rparr>,
       LogPrint ''WARNING: Speech recognition request exceeded limit of 60 seconds.'',
       LogFatalf ''Could not recognize: %v''
         [StatusArg \<lparr>Code = 11, Message = ''Exceeded maximum allowed stream duration''\<rparr>]],
      Exited 1)
   \<and> startReceivingStream
     [Inr \<lparr>Error = None, Results = [\<lparr>Alternatives = [\<lparr>Transcript = ''ola''\<rparr>]\<rparr>]\<rparr>,
      Inl EOF,
      Inr \<lparr>Error = None, Results = [\<lparr>Alternatives = [\<lparr>Transcript = ''late''\<rparr>]\<rparr>]\<rparr>] =
     ([Println [StrArg ''Transcript alternatives: '', StrArg ''ola''],
       AltsSend \<lparr>Transcript = ''ola''\<rparr>],
      Returned)"
  using receiver_stops_on_eof_and_exits_on_error
    [where pre = "[Inr \<lparr>Error = None, Results = [\<lparr>Alternatives = [\<lparr>Transcript = ''ola''\<rparr>]\<rparr>]\<rparr>]"
       and st = "\<lparr>Code = 11, Message = ''Exceeded maximum allowed stream duration''\<rparr>"]
  by (simp add: could_not_recognize_def)

section \<open>The zero-length input\<close>









section \<open>Properties of the translator\<close>

lemma index_0: "index xs 0 = (case xs of [] \<Rightarrow> None | x # _ \<Rightarrow> Some x)"
  by (cases xs) (simp_all add: index_def)

lemma startTranslating_step_ok:
  assumes "new_client_err s = None" and "parse code = Inr target"
    and "translate_res s = Inr (t # ts)"
  shows "startTranslating parse code (s # rest) =
     apfst ((@) [Translate [Transcript (alt_in s)] target,
                 Printf ''Translation: %v\<newline>'' [StrArg (Text t)],
                 TextsSend (Text t)])
       (startTranslating parse code rest)"
  using assms by (simp add: index_0)

text \<open>Iterations that translate only add their events.\<close>

lemma startTranslating_prefix:
  assumes "parse code = Inr target"
  shows "\<forall>s\<in>set pre. translated parse code s \<Longrightarrow>
   startTranslating parse code (pre @ rest) =
     apfst ((@) (concat (map (translated_events target) pre)))
       (startTranslating parse code rest)"
proof (induction pre)
  case Nil
  show ?case by (simp add: apfst_ident)
next
  case (Cons x pre)
  from Cons.prems have "translated parse code x" by simp
  then obtain t ts where x: "new_client_err x = None" "translate_res x = Inr (t # ts)"
    by (cases "translate_res x") (auto simp: translated_def neq_Nil_conv)
  have "startTranslating parse code ((x # pre) @ rest) =
      apfst ((@) (translated_events target x)) (startTranslating parse code (pre @ rest))"
    using startTranslating_step_ok [of x parse code target t ts "pre @ rest"] x assms
    by (simp add: translated_events_def index_0)
  with Cons show ?case
    by (simp add: apfst_append_append)
qed

lemma startTranslating_no_panic:
  "\<forall>s\<in>set script. \<forall>ts. translate_res s = Inr ts \<longrightarrow> ts \<noteq> [] \<Longrightarrow>
   snd (startTranslating parse code script) \<noteq> Panicked"
proof (induction script)
  case Nil
  show ?case by simp
next
  case (Cons s script)
  then show ?case
    by (auto simp: index_0 Let_def split: option.splits sum.splits list.splits)
qed

lemma texts_sent_translated:
  "texts_sent (concat (map (translated_events target) pre)) =
     concat (map (\<lambda>s. case first_translation (translate_res s) of
                          None \<Rightarrow> [] | Some t \<Rightarrow> [Text t]) pre)"
  by (induction pre) (simp_all add: texts_sent_def translated_events_def split: option.split)

lemma startTranslating_all_translated:
  assumes "parse code = Inr target" and "\<forall>s\<in>set pre. translated parse code s"
  shows "startTranslating parse code pre = (concat (map (translated_events target) pre), Blocked)"
  using startTranslating_prefix [OF assms, of "[]"] by simp

text \<open>
  C7, as stated, fails: with the client created, the target language parsed and the
  translation call returning no error, the translator still neither prints nor forwards
  anything when the slice of translations it gets is empty. The first \<^verbatim>\<open>translations[0]\<close>
  (line 164) is out of range and the goroutine panics; the process is not ended by any of
  the three \<^verbatim>\<open>log.Fatalf\<close>.
\<close>

theorem translator_panics_on_empty_successful_response:
  "texts_sent (fst (startTranslating (\<lambda>c. Inr c) ''pt-BR''
     [\<lparr>alt_in = \<lparr>Transcript = ''hello''\<rparr>, new_client_err = None,
       translate_res = Inr []\<rparr>])) = []
   \<and> fst (startTranslating (\<lambda>c. Inr c) ''pt-BR''
     [\<lparr>alt_in = \<lparr>Transcript = ''hello''\<rparr>, new_client_err = None,
       translate_res = Inr []\<rparr>]) = [Translate [''hello''] ''pt-BR'']
   \<and> snd (startTranslating (\<lambda>c. Inr c) ''pt-BR''
     [\<lparr>alt_in = \<lparr>Transcript = ''hello''\<rparr>, new_client_err = None,
       translate_res = Inr []\<rparr>]) = Panicked"
  by (simp add: index_def texts_sent_def)

text \<open>
  C7, amended. Let the translator have translated the alternatives of the iterations
  \<open>pre\<close> and take the next one, \<open>s\<close>, from the channel. When the client creation fails, the run ends
  there with that fatal log line and the exit of the process; when the parsing of the
  target language fails, likewise; when the translation call fails, likewise, after the
  call. Otherwise, the response holding the translation \<open>t\<close> as its first element
  (\<^verbatim>\<open>translations[0]\<close>), the translator prints the text of \<open>t\<close>, forwards that same text
  on the texts channel and goes on with the next alternative. After a fatal line nothing
  is printed or forwarded. The texts forwarded for \<open>pre\<close> are the first translations of
  its responses, one per alternative, in order.
\<close>

theorem translator_exits_on_failure_else_forwards:
  assumes "\<forall>x\<in>set pre. translated parse code x"
  shows "(\<forall>e. new_client_err s = Some e \<longrightarrow>
           startTranslating parse code (s # rest) =
             ([LogFatalf ''Failed to create client: %v'' [ErrArg e]], Exited 1))
       \<and> (\<forall>e. new_client_err s = None \<and> parse code = Inl e \<longrightarrow>
           startTranslating parse code (s # rest) =
             ([LogFatalf ''Failed to parse target language: %v'' [ErrArg e]], Exited 1))
       \<and> (\<forall>e target. new_client_err s = None \<and> parse code = Inr target \<and>
             translate_res s = Inl e \<longrightarrow>
           startTranslating parse code (s # rest) =
             ([Translate [Transcript (alt_in s)] target,
               LogFatalf ''Failed to translate text: %v'' [ErrArg e]], Exited 1))
       \<and> (\<forall>target t ts. new_client_err s = None \<and> parse code = Inr target \<and>
             translate_res s = Inr (t # ts) \<longrightarrow>
           startTranslating parse code (s # rest) =
             apfst ((@) [Translate [Transcript (alt_in s)] target,
                         Printf ''Translation: %v\<newline>'' [StrArg (Text t)],
                         TextsSend (Text t)])
               (startTranslating parse code rest))
       \<and> (\<forall>target. parse code = Inr target \<longrightarrow>
           startTranslating parse code (pre @ s # rest) =
             apfst ((@) (concat (map (translated_events target) pre)))
               (startTranslating parse code (s # rest))
         \<and> texts_sent (fst (startTranslating parse code pre)) =
             concat (map (\<lambda>s. case first_translation (translate_res s) of
                                  None \<Rightarrow> [] | Some t \<Rightarrow> [Text t]) pre))"
  using assms startTranslating_prefix [of parse code _ pre "s # rest"]
    startTranslating_all_translated [of parse code _ pre]
  by (simp add: index_0 texts_sent_translated)

theorem translator_exits_on_failure_else_forwards_witness:
  "startTranslating
     (\<lambda>c. if c = ''pt-BR'' then Inr ''pt-BR'' else Inl (OtherError ''tag is not well-formed''))
     ''pt-BR''
     [\<lparr>alt_in = \<lparr>Transcript = ''hello''\<rparr>, new_client_err = None,
       translate_res = Inr [\<lparr>Text = ''ola''\<rparr>]\<rparr>,
      \<lparr>alt_in = \<lparr>Transcript = ''world''\<rparr>, new_client_err = Some (OtherError ''no credentials''),
       translate_res = Inr [\<lparr>Text = ''mundo''\<rparr>]\<rparr>] =
     ([Translate [''hello''] ''pt-BR'',
       Printf ''Translation: %v\<newline>'' [StrArg ''ola''],
       TextsSend ''ola'',
       LogFatalf ''Failed to create client: %v'' [ErrArg (OtherError ''no credentials'')]],
      Exited 1)"
  using translator_exits_on_failure_else_forwards
    [where parse = "\<lambda>c. if c = ''pt-BR'' then Inr ''pt-BR''
                         else Inl (OtherError ''tag is not well-formed'')"
       and code = "''pt-BR''"
       and pre = "[\<lparr>alt_in = \<lparr>Transcript = ''hello''\<rparr>, new_client_err = None,
                    translate_res = Inr [\<lparr>Text = ''ola''\<rparr>]\<rparr>]"
       and s = "\<lparr>alt_in = \<lparr>Transcript = ''world''\<rparr>,
                 new_client_err = Some (OtherError ''no credentials''),
                 translate_res = Inr [\<lparr>Text = ''mundo''\<rparr>]\<rparr>"
       and rest = "[]"]
  by (simp add: translated_def translated_events_def index_def)

text \<open>
  C10. The access \<^verbatim>\<open>translations[0]\<close> is in bounds exactly when the slice is not empty.
  When every successful translation call of a run returns a non-empty slice, the run
  does not panic, however it ends. When the three calls of an iteration succeed and the
  slice is empty, the access is out of bounds: the goroutine panics right after the
  call, with nothing printed or forwarded.
\<close>

theorem translator_first_translation_in_bounds:
  "(index translations 0 \<noteq> None \<longleftrightarrow> translations \<noteq> [])
   \<and> ((\<forall>s\<in>set script. \<forall>ts. translate_res s = Inr ts \<longrightarrow> ts \<noteq> []) \<longrightarrow>
        snd (startTranslating parse code script) \<noteq> Panicked)
   \<and> (new_client_err s = None \<and> parse code = Inr target \<and> translate_res s = Inr [] \<longrightarrow>
        startTranslating parse code (s # rest) =
          ([Translate [Transcript (alt_in s)] target], Panicked))"
  using startTranslating_no_panic [of script parse code]
  by (simp add: index_0 split: list.split)

theorem translator_first_translation_in_bounds_witness:
  "snd (startTranslating (\<lambda>c. Inr c) ''pt-BR''
     [\<lparr>alt_in = \<lparr>Transcript = ''hello''\<rparr>, new_client_err = None,
       translate_res = Inr [\<lparr>Text = ''ola''\<rparr>]\<rparr>]) \<noteq> Panicked
   \<and> startTranslating (\<lambda>c. Inr c) ''pt-BR''
     (\<lparr>alt_in = \<lparr>Transcript = ''hello''\<rparr>, new_client_err = None, translate_res = Inr []\<rparr> #
      [\<lparr>alt_in = \<lparr>Transcript = ''world''\<rparr>, new_client_err = None,
        translate_res = Inr [\<lparr>Text = ''mundo''\<rparr>]\<rparr>]) =
     ([Translate [''hello''] ''pt-BR''], Panicked)"
  using translator_first_translation_in_bounds
    [where parse = "\<lambda>c. Inr c" and code = "''pt-BR''" and target = "''pt-BR''"
       and script = "[\<lparr>alt_in = \<lparr>Transcript = ''hello''\<rparr>, new_client_err = None,
                       translate_res = Inr [\<lparr>Text = ''ola''\<rparr>]\<rparr>]"
       and s = "\<lparr>alt_in = \<lparr>Transcript = ''hello''\<rparr>, new_client_err = None,
                 translate_res = Inr []\<rparr>"
       and rest = "[\<lparr>alt_in = \<lparr>Transcript = ''world''\<rparr>, new_client_err = None,
                     translate_res = Inr [\<lparr>Text = ''mundo''\<rparr>]\<rparr>]"]
  by (simp add: index_def)

section \<open>Properties of the speaker\<close>

lemma synth_requests_Nil: "synth_requests [] = []"
  by (simp add: synth_requests_def)

lemma synth_requests_Cons: "synth_requests (e # es) = synth_of e @ synth_requests es"
  by (simp add: synth_requests_def)

lemma synth_requests_append: "synth_requests (xs @ ys) = synth_requests xs @ synth_requests ys"
  by (simp add: synth_requests_def)

lemma synth_requests_spoken:
  "synth_requests (concat (map (spoken_events lang) pre)) =
     map (\<lambda>s. synth_request lang (text_in s)) pre"
  by (induction pre) (simp_all add: synth_requests_def spoken_events_def)

lemma writes_spoken:
  "writes (concat (map (spoken_events lang) pre)) = map (\<lambda>s. (filename, audio_of s)) pre"
  by (induction pre) (simp_all add: writes_def spoken_events_def)

lemma speaking_loop_step_ok:
  assumes "spoken s"
  shows "speaking_loop lang fs (s # rest) =
     apfst ((@) (spoken_events lang s))
       (speaking_loop lang (fs(filename \<mapsto> audio_of s)) rest)"
proof -
  from assms obtain audio where "synth_res s = Inr audio" "write_res s = WriteOk"
    by (cases "synth_res s") (auto simp: spoken_def)
  then show ?thesis
    by (simp add: spoken_events_def audio_of_def)
qed

lemma last_write_Cons:
  "last_write (fs(filename \<mapsto> audio_of x)) pre = last_write fs (x # pre)"
  by (simp add: last_write_def)

text \<open>Iterations that speak add their events and leave the last audio in the file.\<close>

lemma speaking_loop_prefix:
  "\<forall>s\<in>set pre. spoken s \<Longrightarrow>
   speaking_loop lang fs (pre @ rest) =
     apfst ((@) (concat (map (spoken_events lang) pre)))
       (speaking_loop lang (last_write fs pre) rest)"
proof (induction pre arbitrary: fs)
  case Nil
  show ?case by (simp add: apfst_ident last_write_def)
next
  case (Cons x pre)
  from Cons.prems have x: "spoken x" and pre: "\<forall>s\<in>set pre. spoken s" by simp_all
  have "speaking_loop lang fs ((x # pre) @ rest) =
      apfst ((@) (spoken_events lang x))
        (speaking_loop lang (fs(filename \<mapsto> audio_of x)) (pre @ rest))"
    using speaking_loop_step_ok [OF x, of lang fs "pre @ rest"] by simp
  also have "\<dots> = apfst ((@) (spoken_events lang x))
        (apfst ((@) (concat (map (spoken_events lang) pre)))
          (speaking_loop lang (last_write fs (x # pre)) rest))"
    by (simp only: Cons.IH [OF pre] last_write_Cons)
  also have "\<dots> = apfst ((@) (concat (map (spoken_events lang) (x # pre))))
        (speaking_loop lang (last_write fs (x # pre)) rest)"
    by (simp only: apfst_append_append list.map concat.simps)
  finally show ?case .
qed

text \<open>One synthesis request for each text taken from the channel, whatever comes back.\<close>

lemma synth_requests_consumed:
  "synth_requests (fst (speaking_loop lang fs script)) =
     map (\<lambda>s. synth_request lang (text_in s)) (take (consumed script) script)"
proof (induction script arbitrary: fs)
  case Nil
  show ?case by (simp add: synth_requests_def)
next
  case (Cons s script)
  show ?case
  proof (cases "synth_res s")
    case (Inl e)
    then show ?thesis by (simp add: spoken_def synth_requests_def)
  next
    case (Inr audio)
    show ?thesis
    proof (cases "write_res s")
      case WriteOk
      with Inr show ?thesis
        by (simp add: spoken_def synth_requests_append synth_requests_Cons
            synth_requests_Nil Cons)
    next
      case (WriteFailed e left)
      with Inr show ?thesis by (simp add: spoken_def synth_requests_def)
    qed
  qed
qed

text \<open>
  C8. With its client created, the speaker issues one synthesis request for each text
  it takes from the channel, in order, each for that text with the fixed voice and
  encoding, whatever the synthesis and the write return. When every synthesis and every
  write of the script succeeds, there is one request per text of the script, each
  returned audio is written to the one fixed path \<^verbatim>\<open>output.mp3\<close>, in order, and, the script
  not being empty, the files afterwards are the files before with \<^verbatim>\<open>output.mp3\<close> holding
  exactly the audio of the last synthesis; the speaker is then blocked on its next receive.
\<close>

theorem speaker_one_request_per_text_last_write_wins:
  "synth_requests (fst (startSpeaking None lang fs script)) =
     map (\<lambda>s. synth_request lang (text_in s)) (take (consumed script) script)
   \<and> ((\<forall>s\<in>set script. spoken s) \<longrightarrow>
        synth_requests (fst (startSpeaking None lang fs script)) =
          map (\<lambda>s. synth_request lang (text_in s)) script
      \<and> writes (fst (startSpeaking None lang fs script)) =
          map (\<lambda>s. (filename, audio_of s)) script
      \<and> (script \<noteq> [] \<longrightarrow>
           fst (snd (startSpeaking None lang fs script)) =
             fs(filename \<mapsto> audio_of (last script)))
      \<and> snd (snd (startSpeaking None lang fs script)) = Blocked)"
  using speaking_loop_prefix [of script lang fs "[]"] synth_requests_consumed [of lang fs script]
  by (simp add: startSpeaking_def synth_requests_spoken writes_spoken last_write_def)

theorem speaker_one_request_per_text_last_write_wins_witness:
  "synth_requests (fst (startSpeaking None ''pt-BR'' [''output.mp3'' \<mapsto> [9]]
     [\<lparr>text_in = ''ola'', synth_res = Inr [1, 2, 3], write_res = WriteOk\<rparr>,
      \<lparr>text_in = ''mundo'', synth_res = Inr [4, 5], write_res = WriteOk\<rparr>])) =
     [\<lparr>Input_Text = ''ola'', Voice_LanguageCode = ''pt-BR'', Voice_SsmlGender = NEUTRAL,
       AudioConfig_AudioEncoding = MP3\<rparr>,
      \<lparr>Input_Text = ''mundo'', Voice_LanguageCode = ''pt-BR'', Voice_SsmlGender = NEUTRAL,
       AudioConfig_AudioEncoding = MP3\<rparr>]
   \<and> fst (snd (startSpeaking None ''pt-BR'' [''output.mp3'' \<mapsto> [9]]
     [\<lparr>text_in = ''ola'', synth_res = Inr [1, 2, 3], write_res = WriteOk\<rparr>,
      \<lparr>text_in = ''mundo'', synth_res = Inr [4, 5], write_res = WriteOk\<rparr>])) =
     [''output.mp3'' \<mapsto> [4, 5]]"
  using speaker_one_request_per_text_last_write_wins
    [where lang = "''pt-BR''" and fs = "[''output.mp3'' \<mapsto> [9]]"
       and script = "[\<lparr>text_in = ''ola'', synth_res = Inr [1, 2, 3], write_res = WriteOk\<rparr>,
                      \<lparr>text_in = ''mundo'', synth_res = Inr [4, 5], write_res = WriteOk\<rparr>]"]
  by (simp add: spoken_def audio_of_def filename_def synth_request_def)

end
